theory Spec2Isabelle
  imports Complex_Main
begin

section \<open>Values exchanged with the provider and the browser\<close>

text \<open>
  Every value the two programs handle comes out of a JSON document (the body of the
  browser's request, the bodies of the provider's responses) or is built from such values,
  so one datatype stands for the Python values: \<open>JNull\<close> is Python's \<open>None\<close>,
  \<open>JObj\<close> a \<open>dict\<close> with string keys, kept as an association list that is read
  with \<open>map_of\<close>. Numbers (\<open>int\<close> and \<open>float\<close>) are reals. The interpreter's
  arithmetic on floats is not modelled: the two operations that depend on it, the addition
  \<open>time.time() + x\<close> in web_app.py and \<open>time.sleep\<close> in cli.py, are arguments of the
  functions that call them.
\<close>

datatype json =
    JNull
  | JBool bool
  | JNum real
  | JStr string
  | JArr "json list"
  | JObj "(string \<times> json) list"

text \<open>Python's truth value of an object, as tested by \<open>if token:\<close> and \<open>if not client_id:\<close>.\<close>

fun truthy :: "json \<Rightarrow> bool" where
  "truthy JNull = False"
| "truthy (JBool b) = b"
| "truthy (JNum x) = (x \<noteq> 0)"
| "truthy (JStr s) = (s \<noteq> [])"
| "truthy (JArr xs) = (xs \<noteq> [])"
| "truthy (JObj kvs) = (kvs \<noteq> [])"

text \<open>
  A response of the \<open>requests\<close> library: its status, its raw text, and what \<open>resp.json()\<close>
  yields on it (\<open>None\<close> when the body is not a JSON document and \<open>resp.json()\<close> raises).
\<close>

record response =
  status_code :: int
  resp_text :: string
  json_body :: "json option"

record request =
  req_url :: string
  req_data :: "(string \<times> json) list"

text \<open>The exceptions that the modelled code can raise.\<close>

datatype exn =
    RequestException string
  | HTTPError response
  | JSONDecodeError
  | AttributeError
  | KeyError string
  | TypeError
  | ValueError
  | OverflowError
  | OAuthError json
  | UnexpectedError string

text \<open>
  The provider, as seen through \<open>requests.post\<close>: a request either fails in transport
  (an exception of the library) or comes back with a response.
\<close>

type_synonym provider = "request \<Rightarrow> exn + response"

definition DEVICE_CODE_URL :: string where
  "DEVICE_CODE_URL = ''https://login.microsoftonline.com/organizations/oauth2/v2.0/devicecode''"

definition TOKEN_URL :: string where
  "TOKEN_URL = ''https://login.microsoftonline.com/organizations/oauth2/v2.0/token''"

definition DEFAULT_SCOPE :: string where
  "DEFAULT_SCOPE = ''https://graph.microsoft.com/.default offline_access openid''"

subsection \<open>Operations of Python and of the \<open>requests\<close> library\<close>

text \<open>\<open>d.get(k, default)\<close>: only a dict has the method; any other value raises AttributeError.\<close>

fun py_get_default :: "json \<Rightarrow> string \<Rightarrow> json \<Rightarrow> exn + json" where
  "py_get_default (JObj kvs) k d = Inr (case map_of kvs k of None \<Rightarrow> d | Some v \<Rightarrow> v)"
| "py_get_default _ k d = Inl AttributeError"

definition py_get :: "json \<Rightarrow> string \<Rightarrow> exn + json" where
  "py_get j k = py_get_default j k JNull"

text \<open>\<open>d[k]\<close> with a string key: KeyError on a dict without the key, TypeError on any other value.\<close>

fun py_index :: "json \<Rightarrow> string \<Rightarrow> exn + json" where
  "py_index (JObj kvs) k = (case map_of kvs k of None \<Rightarrow> Inl (KeyError k) | Some v \<Rightarrow> Inr v)"
| "py_index _ k = Inl TypeError"

text \<open>\<open>resp.json()\<close>.\<close>

definition resp_json :: "response \<Rightarrow> exn + json" where
  "resp_json r = (case json_body r of None \<Rightarrow> Inl JSONDecodeError | Some j \<Rightarrow> Inr j)"

text \<open>
  \<open>resp.raise_for_status()\<close> of the \<open>requests\<close> library, which is not part of this
  repository: as the library documents it, an HTTPError holding the response is raised for a
  client error (400 to 499) or a server error (500 to 599) status, and nothing happens for
  any other status.
\<close>

definition raise_for_status :: "response \<Rightarrow> exn + unit" where
  "raise_for_status r =
     (if 400 \<le> status_code r \<and> status_code r < 600 then Inl (HTTPError r) else Inr ())"

section \<open>The web application (web_app.py)\<close>

text \<open>A stored session: the dict that \<open>api_device_code\<close> puts under the session id.\<close>

record session =
  client_id :: json
  device_code :: json
  interval :: json
  expires_at :: real

text \<open>
  What the web application can change: the pickled session file (\<open>None\<close> while the file
  does not exist) and the requests posted to the provider so far.
\<close>

record world =
  session_file :: "(string \<rightharpoonup> session) option"
  sent :: "request list"

definition load_sessions :: "world \<Rightarrow> (string \<rightharpoonup> session)" where
  "load_sessions w = (case session_file w of Some sessions \<Rightarrow> sessions | None \<Rightarrow> Map.empty)"

definition save_sessions :: "(string \<rightharpoonup> session) \<Rightarrow> world \<Rightarrow> world" where
  "save_sessions sessions w = w\<lparr>session_file := Some sessions\<rparr>"

definition device_code_request :: "json \<Rightarrow> json \<Rightarrow> request" where
  "device_code_request cid scope =
     \<lparr>req_url = DEVICE_CODE_URL, req_data = [(''client_id'', cid), (''scope'', scope)]\<rparr>"

definition get_device_code :: "provider \<Rightarrow> json \<Rightarrow> json \<Rightarrow> world \<Rightarrow> (exn + json) \<times> world" where
  "get_device_code P cid scope w =
     (let w1 = w\<lparr>sent := sent w @ [device_code_request cid scope]\<rparr> in
      case P (device_code_request cid scope) of
        Inl e \<Rightarrow> (Inl e, w1)
      | Inr resp \<Rightarrow>
          (case raise_for_status resp of
             Inl e \<Rightarrow> (Inl e, w1)
           | Inr _ \<Rightarrow> (resp_json resp, w1)))"

definition token_request :: "json \<Rightarrow> json \<Rightarrow> request" where
  "token_request cid dc =
     \<lparr>req_url = TOKEN_URL,
      req_data = [(''grant_type'', JStr ''urn:ietf:params:oauth:grant-type:device_code''),
                  (''client_id'', cid), (''device_code'', dc)]\<rparr>"

text \<open>
  One redemption attempt. \<open>return None\<close> is \<open>Inr JNull\<close>; the two \<open>raise Exception\<close>
  are \<open>OAuthError\<close> and \<open>UnexpectedError\<close>. The \<open>interval\<close> argument is not used by
  the body, as in the source.
\<close>

definition poll_for_token :: "provider \<Rightarrow> json \<Rightarrow> json \<Rightarrow> json \<Rightarrow> world \<Rightarrow> (exn + json) \<times> world" where
  "poll_for_token P cid dc ival w =
     (let w1 = w\<lparr>sent := sent w @ [token_request cid dc]\<rparr> in
      case P (token_request cid dc) of
        Inl e \<Rightarrow> (Inl e, w1)
      | Inr resp \<Rightarrow>
          if status_code resp = 200 then (resp_json resp, w1)
          else if status_code resp = 400 then
            (case resp_json resp of
               Inl e \<Rightarrow> (Inl e, w1)
             | Inr j \<Rightarrow>
                 (case py_get j ''error'' of
                    Inl e \<Rightarrow> (Inl e, w1)
                  | Inr error \<Rightarrow>
                      if error = JStr ''authorization_pending'' \<or> error = JStr ''slow_down''
                      then (Inr JNull, w1)
                      else (Inl (OAuthError j), w1)))
          else (Inl (UnexpectedError (resp_text resp)), w1))"

text \<open>
  What a view function hands to Flask: \<open>jsonify(body), status\<close>; the body
  \<open>{'error': str(e)}\<close> with a status, where the exception stands for its message; or an
  exception that leaves the view function unhandled.
\<close>

datatype view_result =
    Jsonify json int
  | JsonifyError exn int
  | Unhandled exn

definition token_payload :: "json \<Rightarrow> exn + json" where
  "token_payload token =
     (case py_index token ''access_token'' of
        Inl e \<Rightarrow> Inl e
      | Inr a \<Rightarrow>
     (case py_get token ''refresh_token'' of
        Inl e \<Rightarrow> Inl e
      | Inr r \<Rightarrow>
     (case py_get token ''id_token'' of
        Inl e \<Rightarrow> Inl e
      | Inr i \<Rightarrow>
     (case py_get token ''expires_in'' of
        Inl e \<Rightarrow> Inl e
      | Inr x \<Rightarrow>
          Inr (JObj [(''access_token'', a), (''refresh_token'', r),
                     (''id_token'', i), (''expires_in'', x)])))))"

text \<open>
  \<open>api_poll_token\<close>, with the clock reading \<open>time.time()\<close> as the argument \<open>now\<close>.
  When the token is truthy the session is deleted and saved before the response is built;
  if building it raises, the handler's \<open>del active_sessions[session_id]\<close> finds the key
  gone and its KeyError leaves the view function.
\<close>

definition api_poll_token :: "provider \<Rightarrow> real \<Rightarrow> string \<Rightarrow> world \<Rightarrow> view_result \<times> world" where
  "api_poll_token P now session_id w =
     (let active_sessions = load_sessions w in
      case active_sessions session_id of
        None \<Rightarrow> (Jsonify (JObj [(''error'', JStr ''Invalid session ID'')]) 404, w)
      | Some session_data \<Rightarrow>
          if now > expires_at session_data
          then (Jsonify (JObj [(''error'', JStr ''Session expired'')]) 408,
                save_sessions (active_sessions(session_id := None)) w)
          else
            (case poll_for_token P (client_id session_data) (device_code session_data)
                    (interval session_data) w of
               (Inl e, w1) \<Rightarrow>
                 (JsonifyError e 500, save_sessions (active_sessions(session_id := None)) w1)
             | (Inr token, w1) \<Rightarrow>
                 if truthy token
                 then
                   (let w2 = save_sessions (active_sessions(session_id := None)) w1 in
                    case token_payload token of
                      Inl e \<Rightarrow> (Unhandled (KeyError session_id), w2)
                    | Inr body \<Rightarrow> (Jsonify body 200, w2))
                 else (Jsonify (JObj [(''status'', JStr ''pending'')]) 200, w1)))"

text \<open>
  The rest of \<open>api_poll_token\<close> after its first line, \<open>active_sessions = load_sessions()\<close>,
  with the loaded dict as an argument. Nothing in the source keeps another request from
  running between that load and the rest, so the world \<open>w\<close> in which the rest runs need
  not be the one the dict was loaded from.
\<close>

definition api_poll_token_loaded ::
    "provider \<Rightarrow> real \<Rightarrow> string \<Rightarrow> (string \<rightharpoonup> session) \<Rightarrow> world \<Rightarrow> view_result \<times> world" where
  "api_poll_token_loaded P now session_id active_sessions w =
     (case active_sessions session_id of
        None \<Rightarrow> (Jsonify (JObj [(''error'', JStr ''Invalid session ID'')]) 404, w)
      | Some session_data \<Rightarrow>
          if now > expires_at session_data
          then (Jsonify (JObj [(''error'', JStr ''Session expired'')]) 408,
                save_sessions (active_sessions(session_id := None)) w)
          else
            (case poll_for_token P (client_id session_data) (device_code session_data)
                    (interval session_data) w of
               (Inl e, w1) \<Rightarrow>
                 (JsonifyError e 500, save_sessions (active_sessions(session_id := None)) w1)
             | (Inr token, w1) \<Rightarrow>
                 if truthy token
                 then
                   (let w2 = save_sessions (active_sessions(session_id := None)) w1 in
                    case token_payload token of
                      Inl e \<Rightarrow> (Unhandled (KeyError session_id), w2)
                    | Inr body \<Rightarrow> (Jsonify body 200, w2))
                 else (Jsonify (JObj [(''status'', JStr ''pending'')]) 200, w1)))"

text \<open>
  Two polls, of \<open>sid1\<close> and of \<open>sid2\<close>, handled one after the other, and the same two
  polls when both requests load the session file before either goes on.
\<close>

definition polls_in_turn ::
    "provider \<Rightarrow> real \<Rightarrow> string \<Rightarrow> string \<Rightarrow> world \<Rightarrow> view_result \<times> view_result \<times> world" where
  "polls_in_turn P now sid1 sid2 w =
     (case api_poll_token P now sid1 w of
        (r1, w1) \<Rightarrow>
          (case api_poll_token P now sid2 w1 of
             (r2, w2) \<Rightarrow> (r1, r2, w2)))"

definition polls_interleaved ::
    "provider \<Rightarrow> real \<Rightarrow> string \<Rightarrow> string \<Rightarrow> world \<Rightarrow> view_result \<times> view_result \<times> world" where
  "polls_interleaved P now sid1 sid2 w =
     (let loaded1 = load_sessions w;
          loaded2 = load_sessions w in
      case api_poll_token_loaded P now sid1 loaded1 w of
        (r1, w1) \<Rightarrow>
          (case api_poll_token_loaded P now sid2 loaded2 w1 of
             (r2, w2) \<Rightarrow> (r1, r2, w2)))"

text \<open>
  The session that \<open>api_device_code\<close> stores (the dict display is evaluated item by
  item, in this order), and the payload it answers with. The sum
  \<open>time.time() + device.get('expires_in', 900)\<close> is the interpreter's: it rounds to a
  float, and raises TypeError for a value that is not a number and OverflowError for an
  integer beyond the range of floats. It is the argument \<open>float_add\<close>, which yields the
  sum or the exception.
\<close>

definition new_session ::
    "(real \<Rightarrow> json \<Rightarrow> exn + real) \<Rightarrow> real \<Rightarrow> json \<Rightarrow> json \<Rightarrow> exn + session" where
  "new_session float_add now cid device =
     (case py_index device ''device_code'' of
        Inl e \<Rightarrow> Inl e
      | Inr dc \<Rightarrow>
     (case py_get_default device ''interval'' (JNum 5) of
        Inl e \<Rightarrow> Inl e
      | Inr ival \<Rightarrow>
     (case py_get_default device ''expires_in'' (JNum 900) of
        Inl e \<Rightarrow> Inl e
      | Inr ttl \<Rightarrow>
     (case float_add now ttl of
        Inl e \<Rightarrow> Inl e
      | Inr t \<Rightarrow>
          Inr \<lparr>client_id = cid, device_code = dc, interval = ival, expires_at = t\<rparr>))))"

definition start_payload :: "string \<Rightarrow> json \<Rightarrow> exn + json" where
  "start_payload session_id device =
     (case py_index device ''verification_uri'' of
        Inl e \<Rightarrow> Inl e
      | Inr uri \<Rightarrow>
     (case py_index device ''user_code'' of
        Inl e \<Rightarrow> Inl e
      | Inr code \<Rightarrow>
     (case py_index device ''message'' of
        Inl e \<Rightarrow> Inl e
      | Inr msg \<Rightarrow>
          Inr (JObj [(''session_id'', JStr session_id), (''verification_uri'', uri),
                     (''user_code'', code), (''message'', msg)]))))"

text \<open>
  \<open>api_device_code\<close>: \<open>data\<close> is what \<open>request.get_json()\<close> returned, \<open>now\<close> the
  clock reading and \<open>new_uuid\<close> the string of the generated UUID. The two \<open>data.get\<close>
  calls stand before the \<open>try\<close>, so their exception is not handled.
\<close>

definition api_device_code ::
    "(real \<Rightarrow> json \<Rightarrow> exn + real) \<Rightarrow> provider \<Rightarrow> real \<Rightarrow> string \<Rightarrow> json \<Rightarrow> world \<Rightarrow>
       view_result \<times> world" where
  "api_device_code float_add P now new_uuid data w =
     (case py_get data ''client_id'' of
        Inl e \<Rightarrow> (Unhandled e, w)
      | Inr cid \<Rightarrow>
     (case py_get_default data ''scope'' (JStr DEFAULT_SCOPE) of
        Inl e \<Rightarrow> (Unhandled e, w)
      | Inr scope \<Rightarrow>
          if \<not> truthy cid
          then (Jsonify (JObj [(''error'', JStr ''Client ID is required'')]) 400, w)
          else
            (case get_device_code P cid scope w of
               (Inl e, w1) \<Rightarrow> (JsonifyError e 500, w1)
             | (Inr device, w1) \<Rightarrow>
                 (case new_session float_add now cid device of
                    Inl e \<Rightarrow> (JsonifyError e 500, w1)
                  | Inr sd \<Rightarrow>
                      (let w2 = save_sessions ((load_sessions w1)(new_uuid \<mapsto> sd)) w1 in
                       case start_payload new_uuid device of
                         Inl e \<Rightarrow> (JsonifyError e 500, w2)
                       | Inr body \<Rightarrow> (Jsonify body 200, w2))))))"

section \<open>The command-line program (cli.py)\<close>

text \<open>
  \<open>get_device_code\<close> of cli.py is the same text as in web_app.py. Its \<open>poll_for_token\<close>
  is a \<open>while True\<close> loop; the model runs it against a script, the list of what
  \<open>requests.post\<close> yields attempt after attempt, and stops with \<open>ScriptExhausted\<close> when
  the loop would go on beyond the script. Console output is left out; \<open>sys.exit(1)\<close> is
  \<open>SysExit 1\<close>. \<open>time.sleep\<close> is the argument \<open>sleep\<close>: called on the interval it
  returns (\<open>None\<close>) or raises (TypeError for a value that is not a number, ValueError for
  a negative one, OverflowError for one beyond the range of the C time type). The fields of
  \<open>cli_world\<close> log the requests posted and the arguments of the calls of \<open>time.sleep\<close>
  that returned.
\<close>

record cli_world =
  cli_sent :: "request list"
  slept :: "json list"

datatype cli_result =
    Returned json
  | Raised exn
  | SysExit int
  | ScriptExhausted

fun cli_poll_for_token ::
    "(json \<Rightarrow> exn option) \<Rightarrow> json \<Rightarrow> json \<Rightarrow> json \<Rightarrow> (exn + response) list \<Rightarrow> cli_world \<Rightarrow>
       cli_result \<times> cli_world" where
  "cli_poll_for_token sleep cid dc ival [] w = (ScriptExhausted, w)"
| "cli_poll_for_token sleep cid dc ival (r # rs) w =
     (let w1 = w\<lparr>cli_sent := cli_sent w @ [token_request cid dc]\<rparr> in
      case r of
        Inl e \<Rightarrow> (Raised e, w1)
      | Inr resp \<Rightarrow>
          if status_code resp = 200 then
            (case resp_json resp of
               Inl e \<Rightarrow> (Raised e, w1)
             | Inr j \<Rightarrow> (Returned j, w1))
          else if status_code resp = 400 then
            (case resp_json resp of
               Inl e \<Rightarrow> (Raised e, w1)
             | Inr j \<Rightarrow>
                 (case py_get j ''error'' of
                    Inl e \<Rightarrow> (Raised e, w1)
                  | Inr error \<Rightarrow>
                      if error = JStr ''authorization_pending'' \<or> error = JStr ''slow_down''
                      then
                        (case sleep ival of
                           Some e \<Rightarrow> (Raised e, w1)
                         | None \<Rightarrow>
                             cli_poll_for_token sleep cid dc ival rs
                               (w1\<lparr>slept := slept w1 @ [ival]\<rparr>))
                      else (SysExit 1, w1)))
          else (SysExit 1, w1))"

section \<open>Sample inputs\<close>

definition sample_session :: session where
  "sample_session =
     \<lparr>client_id = JStr ''abc'', device_code = JStr ''d1'', interval = JNum 5, expires_at = 900\<rparr>"

definition sample_world :: world where
  "sample_world = \<lparr>session_file = Some [''S'' \<mapsto> sample_session], sent = []\<rparr>"

definition two_sessions_world :: world where
  "two_sessions_world =
     \<lparr>session_file = Some [''S'' \<mapsto> sample_session, ''T'' \<mapsto> sample_session], sent = []\<rparr>"

definition empty_world :: world where
  "empty_world = \<lparr>session_file = None, sent = []\<rparr>"

definition pending_response :: response where
  "pending_response =
     \<lparr>status_code = 400, resp_text = ''pending'',
      json_body = Some (JObj [(''error'', JStr ''authorization_pending'')])\<rparr>"

definition slow_down_response :: response where
  "slow_down_response =
     \<lparr>status_code = 400, resp_text = ''slow down'',
      json_body = Some (JObj [(''error'', JStr ''slow_down'')])\<rparr>"

definition token_response :: response where
  "token_response =
     \<lparr>status_code = 200, resp_text = ''token'',
      json_body = Some (JObj [(''access_token'', JStr ''tok'')])\<rparr>"

definition garbled_response :: response where
  "garbled_response = \<lparr>status_code = 400, resp_text = ''<html>'', json_body = None\<rparr>"

definition multiple_choices_response :: response where
  "multiple_choices_response =
     \<lparr>status_code = 300, resp_text = ''choices'',
      json_body = Some (JObj [(''device_code'', JStr ''d1'')])\<rparr>"

definition answer_with :: "response \<Rightarrow> provider" where
  "answer_with resp req = Inr resp"

definition unreachable :: provider where
  "unreachable req = Inl (RequestException ''connection refused'')"

definition device_code_response :: response where
  "device_code_response =
     \<lparr>status_code = 200, resp_text = ''device code'',
      json_body = Some (JObj [(''device_code'', JStr ''d2''), (''user_code'', JStr ''U2''),
                              (''verification_uri'', JStr ''https://x''),
                              (''message'', JStr ''enter U2''),
                              (''interval'', JNum 5), (''expires_in'', JNum 900)])\<rparr>"

text \<open>
  A \<open>time.sleep\<close> that returns, as it does on the five seconds of the sample runs, and a
  float addition without rounding, as it is on the sum \<open>100.0 + 900\<close> of the sample runs.
\<close>

definition sleep_returns :: "json \<Rightarrow> exn option" where
  "sleep_returns x = None"

definition add_unrounded :: "real \<Rightarrow> json \<Rightarrow> exn + real" where
  "add_unrounded t x = (case x of JNum s \<Rightarrow> Inr (t + s) | _ \<Rightarrow> Inl TypeError)"

section \<open>Properties\<close>

subsection \<open>Auxiliary facts\<close>

lemma load_save [simp]: "load_sessions (save_sessions m w) = m"
  by (simp add: load_sessions_def save_sessions_def)

lemma sent_save [simp]: "sent (save_sessions m w) = sent w"
  by (simp add: save_sessions_def)

lemma poll_for_token_sent:
  "snd (poll_for_token P cid dc ival w) = w\<lparr>sent := sent w @ [token_request cid dc]\<rparr>"
  by (simp add: poll_for_token_def Let_def split: sum.splits)

lemma token_payload_not_pending:
  "token_payload token = Inr body \<Longrightarrow> body \<noteq> JObj [(''status'', JStr ''pending'')]"
  by (auto simp: token_payload_def split: sum.splits)

lemma token_payload_obj:
  "map_of kvs ''access_token'' = Some tok \<Longrightarrow>
   token_payload (JObj kvs) =
     Inr (JObj [(''access_token'', tok),
                (''refresh_token'', case map_of kvs ''refresh_token'' of None \<Rightarrow> JNull | Some v \<Rightarrow> v),
                (''id_token'', case map_of kvs ''id_token'' of None \<Rightarrow> JNull | Some v \<Rightarrow> v),
                (''expires_in'', case map_of kvs ''expires_in'' of None \<Rightarrow> JNull | Some v \<Rightarrow> v)])"
  by (simp add: token_payload_def py_get_def)

lemma poll_for_token_waiting:
  assumes "P (token_request cid dc) = Inr resp"
    and "status_code resp = 400"
    and "json_body resp = Some (JObj kvs)"
    and "map_of kvs ''error'' = Some (JStr ''authorization_pending'') \<or>
         map_of kvs ''error'' = Some (JStr ''slow_down'')"
  shows "poll_for_token P cid dc ival w =
           (Inr JNull, w\<lparr>sent := sent w @ [token_request cid dc]\<rparr>)"
  using assms by (auto simp: poll_for_token_def resp_json_def py_get_def)

lemma api_poll_token_cong:
  assumes "\<And>sd::session. poll_for_token P1 (client_id sd) (device_code sd) (interval sd) w =
                 poll_for_token P2 (client_id sd) (device_code sd) (interval sd) w"
  shows "api_poll_token P1 now session_id w = api_poll_token P2 now session_id w"
proof (cases "load_sessions w session_id")
  case None
  then show ?thesis by (simp add: api_poll_token_def)
next
  case (Some sd)
  then show ?thesis by (simp add: api_poll_token_def Let_def assms [of sd])
qed

lemma cli_poll_for_token_waiting:
  assumes "status_code resp = 400"
    and "json_body resp = Some (JObj kvs)"
    and "map_of kvs ''error'' = Some (JStr ''authorization_pending'') \<or>
         map_of kvs ''error'' = Some (JStr ''slow_down'')"
  shows "cli_poll_for_token sleep cid dc ival (Inr resp # rs) cw =
           (case sleep ival of
              Some e \<Rightarrow> (Raised e, cw\<lparr>cli_sent := cli_sent cw @ [token_request cid dc]\<rparr>)
            | None \<Rightarrow>
                cli_poll_for_token sleep cid dc ival rs
                  (cw\<lparr>cli_sent := cli_sent cw @ [token_request cid dc],
                      slept := slept cw @ [ival]\<rparr>))"
  using assms by (auto simp: resp_json_def py_get_def Let_def split: option.splits)

lemma cli_poll_for_token_returns:
  assumes "status_code fin = 200" and "json_body fin = Some j"
  shows "cli_poll_for_token sleep cid dc ival (Inr fin # rs) cw =
           (Returned j, cw\<lparr>cli_sent := cli_sent cw @ [token_request cid dc]\<rparr>)"
  using assms by (simp add: resp_json_def)

lemma cli_poll_for_token_waits:
  assumes "\<And>r. r \<in> set ws \<Longrightarrow>
             status_code r = 400 \<and>
             (\<exists>kvs. json_body r = Some (JObj kvs) \<and>
                (map_of kvs ''error'' = Some (JStr ''authorization_pending'') \<or>
                 map_of kvs ''error'' = Some (JStr ''slow_down'')))"
    and "sleep ival = None"
  shows "cli_poll_for_token sleep cid dc ival (map Inr ws @ rs) cw =
           cli_poll_for_token sleep cid dc ival rs
             (cw\<lparr>cli_sent := cli_sent cw @ replicate (length ws) (token_request cid dc),
                 slept := slept cw @ replicate (length ws) ival\<rparr>)"
  using assms(1)
proof (induction ws arbitrary: cw)
  case Nil
  show ?case by simp
next
  case (Cons r ws)
  from Cons.prems [of r] obtain kvs where r: "status_code r = 400" "json_body r = Some (JObj kvs)"
    "map_of kvs ''error'' = Some (JStr ''authorization_pending'') \<or>
     map_of kvs ''error'' = Some (JStr ''slow_down'')"
    by auto
  have step: "cli_poll_for_token sleep cid dc ival (Inr r # (map Inr ws @ rs)) cw =
        cli_poll_for_token sleep cid dc ival (map Inr ws @ rs)
          (cw\<lparr>cli_sent := cli_sent cw @ [token_request cid dc], slept := slept cw @ [ival]\<rparr>)"
    using cli_poll_for_token_waiting [OF r] assms(2) by simp
  have rest: "cli_poll_for_token sleep cid dc ival (map Inr ws @ rs)
          (cw\<lparr>cli_sent := cli_sent cw @ [token_request cid dc], slept := slept cw @ [ival]\<rparr>) =
        cli_poll_for_token sleep cid dc ival rs
          (cw\<lparr>cli_sent := cli_sent cw @ replicate (length (r # ws)) (token_request cid dc),
              slept := slept cw @ replicate (length (r # ws)) ival\<rparr>)"
    using Cons.IH [of "cw\<lparr>cli_sent := cli_sent cw @ [token_request cid dc],
                          slept := slept cw @ [ival]\<rparr>"] Cons.prems
    by simp
  show ?case using step rest by simp
qed

lemma api_poll_token_split:
  "api_poll_token P now session_id w =
     api_poll_token_loaded P now session_id (load_sessions w) w"
  by (simp add: api_poll_token_def api_poll_token_loaded_def Let_def)

lemma get_device_code_sessions:
  "session_file (snd (get_device_code P cid scope w)) = session_file w"
  by (simp add: get_device_code_def Let_def split: sum.splits)

lemma poll_for_token_sessions:
  "session_file (snd (poll_for_token P cid dc ival w)) = session_file w"
  by (simp add: poll_for_token_sent)

lemma api_poll_token_loaded_saved:
  assumes "stale session_id = Some sd"
    and "fst (api_poll_token_loaded P now session_id stale w) \<noteq>
           Jsonify (JObj [(''status'', JStr ''pending'')]) 200"
  shows "load_sessions (snd (api_poll_token_loaded P now session_id stale w)) =
           stale(session_id := None)"
proof -
  obtain res w1 where p:
    "poll_for_token P (client_id sd) (device_code sd) (interval sd) w = (res, w1)"
    by (cases "poll_for_token P (client_id sd) (device_code sd) (interval sd) w")
  show ?thesis
    using assms p
    by (auto simp: api_poll_token_loaded_def Let_def split: if_splits sum.splits)
qed

lemma api_poll_token_loaded_frame:
  assumes "stale = load_sessions w" and "k \<noteq> session_id"
  shows "load_sessions (snd (api_poll_token_loaded P now session_id stale w)) k = load_sessions w k"
proof (cases "stale session_id")
  case None
  then show ?thesis by (simp add: api_poll_token_loaded_def)
next
  case (Some sd)
  obtain res w1 where p:
    "poll_for_token P (client_id sd) (device_code sd) (interval sd) w = (res, w1)"
    by (cases "poll_for_token P (client_id sd) (device_code sd) (interval sd) w")
  have w1: "load_sessions w1 = load_sessions w"
    using poll_for_token_sessions [of P "client_id sd" "device_code sd" "interval sd" w] p
    by (simp add: load_sessions_def)
  show ?thesis
    using assms Some p w1
    by (auto simp: api_poll_token_loaded_def Let_def split: if_splits sum.splits)
qed

lemma api_device_code_frame:
  assumes "k \<noteq> new_uuid"
  shows "load_sessions (snd (api_device_code float_add P now new_uuid data w)) k =
           load_sessions w k"
proof -
  have g: "load_sessions (snd (get_device_code P cid scope w)) = load_sessions w" for cid scope
    using get_device_code_sessions [of P cid scope w] by (simp add: load_sessions_def)
  have inner: "load_sessions (snd
        (case get_device_code P cid scope w of
           (Inl e, w1) \<Rightarrow> (JsonifyError e 500, w1)
         | (Inr device, w1) \<Rightarrow>
             (case new_session float_add now cid device of
                Inl e \<Rightarrow> (JsonifyError e 500, w1)
              | Inr sd \<Rightarrow>
                  (let w2 = save_sessions ((load_sessions w1)(new_uuid \<mapsto> sd)) w1 in
                   case start_payload new_uuid device of
                     Inl e \<Rightarrow> (JsonifyError e 500, w2)
                   | Inr body \<Rightarrow> (Jsonify body 200, w2))))) k = load_sessions w k" for cid scope
  proof -
    obtain res w1 where q: "get_device_code P cid scope w = (res, w1)"
      by (cases "get_device_code P cid scope w")
    with g [of cid scope] have w1: "load_sessions w1 = load_sessions w" by simp
    show ?thesis
      using assms w1 by (auto simp: q Let_def split: sum.splits)
  qed
  show ?thesis
    unfolding api_device_code_def
    by (simp add: inner split: sum.splits)
qed

subsection \<open>Expiry\<close>




subsection \<open>Terminal outcomes\<close>

text \<open>
  Claim C2. Whenever a poll ends with anything but the "pending" answer (the token payload,
  a 500 error for a denial or a provider error, the 408 expiry answer, or an exception that
  leaves the view), the session id is absent from the store that the poll leaves behind, and
  any later poll of that id, at any time and against any provider, answers 404
  "Invalid session ID" and changes nothing.
\<close>

theorem terminal_outcome_removes_session:
  assumes "api_poll_token P now session_id w = (r, w')"
    and "r \<noteq> Jsonify (JObj [(''status'', JStr ''pending'')]) 200"
  shows "load_sessions w' session_id = None \<and>
         api_poll_token P' now' session_id w' =
           (Jsonify (JObj [(''error'', JStr ''Invalid session ID'')]) 404, w')"
proof -
  have gone: "load_sessions w' session_id = None"
  proof (cases "load_sessions w session_id")
    case None
    with assms(1) show ?thesis by (simp add: api_poll_token_def)
  next
    case (Some sd)
    obtain res w1 where p:
      "poll_for_token P (client_id sd) (device_code sd) (interval sd) w = (res, w1)"
      by (cases "poll_for_token P (client_id sd) (device_code sd) (interval sd) w")
    show ?thesis
      using assms Some p
      by (auto simp: api_poll_token_def Let_def split: if_splits sum.splits)
  qed
  then show ?thesis by (simp add: api_poll_token_def)
qed

theorem terminal_outcome_removes_session_witness:
  "api_poll_token (answer_with token_response) 10 ''S'' sample_world =
     (Jsonify (JObj [(''access_token'', JStr ''tok''), (''refresh_token'', JNull),
                     (''id_token'', JNull), (''expires_in'', JNull)]) 200,
      \<lparr>session_file = Some Map.empty, sent = [token_request (JStr ''abc'') (JStr ''d1'')]\<rparr>) \<and>
   Jsonify (JObj [(''access_token'', JStr ''tok''), (''refresh_token'', JNull),
                  (''id_token'', JNull), (''expires_in'', JNull)]) 200
     \<noteq> Jsonify (JObj [(''status'', JStr ''pending'')]) 200 \<and>
   load_sessions \<lparr>session_file = Some Map.empty,
                  sent = [token_request (JStr ''abc'') (JStr ''d1'')]\<rparr> ''S'' = None \<and>
   api_poll_token (answer_with token_response) 15 ''S''
       \<lparr>session_file = Some Map.empty, sent = [token_request (JStr ''abc'') (JStr ''d1'')]\<rparr> =
     (Jsonify (JObj [(''error'', JStr ''Invalid session ID'')]) 404,
      \<lparr>session_file = Some Map.empty, sent = [token_request (JStr ''abc'') (JStr ''d1'')]\<rparr>)"
proof -
  have run: "api_poll_token (answer_with token_response) 10 ''S'' sample_world =
     (Jsonify (JObj [(''access_token'', JStr ''tok''), (''refresh_token'', JNull),
                     (''id_token'', JNull), (''expires_in'', JNull)]) 200,
      \<lparr>session_file = Some Map.empty, sent = [token_request (JStr ''abc'') (JStr ''d1'')]\<rparr>)"
    by (simp add: api_poll_token_def poll_for_token_def load_sessions_def save_sessions_def
        sample_world_def sample_session_def answer_with_def token_response_def resp_json_def
        token_payload_def py_get_def)
  have ne: "Jsonify (JObj [(''access_token'', JStr ''tok''), (''refresh_token'', JNull),
                  (''id_token'', JNull), (''expires_in'', JNull)]) 200
     \<noteq> Jsonify (JObj [(''status'', JStr ''pending'')]) 200"
    by simp
  show ?thesis
    using run ne
      terminal_outcome_removes_session [OF run ne, of "answer_with token_response" 15]
    by simp
qed

text \<open>
  Claim C3. For a stored session that is not expired, when the token endpoint answers 200
  with a JSON object holding an \<open>access_token\<close>, the poll answers 200 with a payload
  whose \<open>access_token\<close> is that very value (the three optional fields are passed through,
  \<open>null\<close> when absent), and the session is deleted from the store.
\<close>

theorem api_poll_token_authorized:
  assumes "load_sessions w session_id = Some sd"
    and "\<not> now > expires_at sd"
    and "P (token_request (client_id sd) (device_code sd)) = Inr resp"
    and "status_code resp = 200"
    and "json_body resp = Some (JObj kvs)"
    and "map_of kvs ''access_token'' = Some tok"
  shows "api_poll_token P now session_id w =
           (Jsonify (JObj [(''access_token'', tok),
                           (''refresh_token'',
                              case map_of kvs ''refresh_token'' of None \<Rightarrow> JNull | Some v \<Rightarrow> v),
                           (''id_token'',
                              case map_of kvs ''id_token'' of None \<Rightarrow> JNull | Some v \<Rightarrow> v),
                           (''expires_in'',
                              case map_of kvs ''expires_in'' of None \<Rightarrow> JNull | Some v \<Rightarrow> v)]) 200,
            save_sessions ((load_sessions w)(session_id := None))
              (w\<lparr>sent := sent w @ [token_request (client_id sd) (device_code sd)]\<rparr>)) \<and>
         load_sessions (snd (api_poll_token P now session_id w)) session_id = None"
proof -
  have kvs: "kvs \<noteq> []" using assms(6) by auto
  have p: "poll_for_token P (client_id sd) (device_code sd) (interval sd) w =
             (Inr (JObj kvs), w\<lparr>sent := sent w @ [token_request (client_id sd) (device_code sd)]\<rparr>)"
    using assms(3-5) by (simp add: poll_for_token_def resp_json_def)
  show ?thesis
    using assms(1,2) p kvs token_payload_obj [OF assms(6)]
    by (simp add: api_poll_token_def)
qed

theorem api_poll_token_authorized_witness:
  "load_sessions sample_world ''S'' = Some sample_session \<and>
   \<not> 10 > expires_at sample_session \<and>
   answer_with token_response
       (token_request (client_id sample_session) (device_code sample_session)) =
     Inr token_response \<and>
   status_code token_response = 200 \<and>
   json_body token_response = Some (JObj [(''access_token'', JStr ''tok'')]) \<and>
   map_of [(''access_token'', JStr ''tok'')] ''access_token'' = Some (JStr ''tok'') \<and>
   api_poll_token (answer_with token_response) 10 ''S'' sample_world =
     (Jsonify (JObj [(''access_token'', JStr ''tok''), (''refresh_token'', JNull),
                     (''id_token'', JNull), (''expires_in'', JNull)]) 200,
      \<lparr>session_file = Some Map.empty, sent = [token_request (JStr ''abc'') (JStr ''d1'')]\<rparr>)"
  using api_poll_token_authorized [of sample_world "''S''" sample_session 10
      "answer_with token_response" token_response "[(''access_token'', JStr ''tok'')]" "JStr ''tok''"]
  by (simp add: load_sessions_def save_sessions_def sample_world_def sample_session_def
      answer_with_def token_response_def)

subsection \<open>Waiting\<close>

text \<open>
  Claim C4. For a stored session that is not expired, when the token endpoint answers 400
  with error "authorization_pending", the poll answers \<open>{'status': 'pending'}\<close>; the
  session file is not written, so the session is still stored, with the same
  \<open>expires_at\<close> and \<open>interval\<close> as every other field.
\<close>

theorem api_poll_token_pending:
  assumes "load_sessions w session_id = Some sd"
    and "\<not> now > expires_at sd"
    and "P (token_request (client_id sd) (device_code sd)) = Inr resp"
    and "status_code resp = 400"
    and "json_body resp = Some (JObj kvs)"
    and "map_of kvs ''error'' = Some (JStr ''authorization_pending'')"
  shows "api_poll_token P now session_id w =
           (Jsonify (JObj [(''status'', JStr ''pending'')]) 200,
            w\<lparr>sent := sent w @ [token_request (client_id sd) (device_code sd)]\<rparr>) \<and>
         session_file (snd (api_poll_token P now session_id w)) = session_file w \<and>
         load_sessions (snd (api_poll_token P now session_id w)) session_id = Some sd"
proof -
  have p: "poll_for_token P (client_id sd) (device_code sd) (interval sd) w =
             (Inr JNull, w\<lparr>sent := sent w @ [token_request (client_id sd) (device_code sd)]\<rparr>)"
    using assms(3-6) by (simp add: poll_for_token_def resp_json_def py_get_def)
  have res: "api_poll_token P now session_id w =
           (Jsonify (JObj [(''status'', JStr ''pending'')]) 200,
            w\<lparr>sent := sent w @ [token_request (client_id sd) (device_code sd)]\<rparr>)"
    using assms(1,2) p by (simp add: api_poll_token_def)
  show ?thesis
    using assms(1) by (simp add: res load_sessions_def)
qed

theorem api_poll_token_pending_witness:
  "load_sessions sample_world ''S'' = Some sample_session \<and>
   \<not> 10 > expires_at sample_session \<and>
   answer_with pending_response
       (token_request (client_id sample_session) (device_code sample_session)) =
     Inr pending_response \<and>
   status_code pending_response = 400 \<and>
   json_body pending_response = Some (JObj [(''error'', JStr ''authorization_pending'')]) \<and>
   map_of [(''error'', JStr ''authorization_pending'')] ''error'' =
     Some (JStr ''authorization_pending'') \<and>
   api_poll_token (answer_with pending_response) 10 ''S'' sample_world =
     (Jsonify (JObj [(''status'', JStr ''pending'')]) 200,
      sample_world\<lparr>sent := [token_request (JStr ''abc'') (JStr ''d1'')]\<rparr>) \<and>
   load_sessions (snd (api_poll_token (answer_with pending_response) 10 ''S'' sample_world)) ''S''
     = Some sample_session \<and>
   expires_at sample_session = 900 \<and> interval sample_session = JNum 5"
  using api_poll_token_pending [of sample_world "''S''" sample_session 10
      "answer_with pending_response" pending_response
      "[(''error'', JStr ''authorization_pending'')]"]
  by (simp add: load_sessions_def sample_world_def sample_session_def
      answer_with_def pending_response_def)

text \<open>
  Claim C7. Two 400 responses, one with error "slow_down" and one with error
  "authorization_pending", are treated alike. In the web application \<open>poll_for_token\<close>
  returns \<open>None\<close> for both, and \<open>api_poll_token\<close> gives the same answer and the same
  store for every store, session id and time: the "pending" answer, with the store untouched,
  when the session is stored and not expired. In the command-line loop each of them is
  followed by one call \<open>time.sleep(interval)\<close> with the interval it was started with: if
  the call raises, the loop ends with that exception; if it returns, then after any
  sequence of such responses and a 200 response the loop returns the token, having posted one
  request per response and slept the same interval once per waiting response.
\<close>

theorem slow_down_same_as_pending:
  assumes "status_code r1 = 400"
    and "json_body r1 = Some (JObj kvs1)"
    and "map_of kvs1 ''error'' = Some (JStr ''slow_down'')"
    and "status_code r2 = 400"
    and "json_body r2 = Some (JObj kvs2)"
    and "map_of kvs2 ''error'' = Some (JStr ''authorization_pending'')"
  shows "poll_for_token (answer_with r1) cid dc ival w =
           (Inr JNull, w\<lparr>sent := sent w @ [token_request cid dc]\<rparr>) \<and>
         poll_for_token (answer_with r2) cid dc ival w =
           (Inr JNull, w\<lparr>sent := sent w @ [token_request cid dc]\<rparr>) \<and>
         api_poll_token (answer_with r1) now session_id w =
           api_poll_token (answer_with r2) now session_id w \<and>
         (\<forall>sd. load_sessions w session_id = Some sd \<and> \<not> now > expires_at sd \<longrightarrow>
            api_poll_token (answer_with r1) now session_id w =
              (Jsonify (JObj [(''status'', JStr ''pending'')]) 200,
               w\<lparr>sent := sent w @ [token_request (client_id sd) (device_code sd)]\<rparr>)) \<and>
         cli_poll_for_token sleep cid dc ival (Inr r1 # rs) cw =
           cli_poll_for_token sleep cid dc ival (Inr r2 # rs) cw \<and>
         (\<forall>e. sleep ival = Some e \<longrightarrow>
            cli_poll_for_token sleep cid dc ival (Inr r1 # rs) cw =
              (Raised e, cw\<lparr>cli_sent := cli_sent cw @ [token_request cid dc]\<rparr>)) \<and>
         (\<forall>ws fin j. set ws \<subseteq> {r1, r2} \<and> sleep ival = None \<and>
            status_code fin = 200 \<and> json_body fin = Some j \<longrightarrow>
            cli_poll_for_token sleep cid dc ival (map Inr ws @ Inr fin # rs) cw =
              (Returned j,
               cw\<lparr>cli_sent := cli_sent cw @ replicate (Suc (length ws)) (token_request cid dc),
                   slept := slept cw @ replicate (length ws) ival\<rparr>))"
proof -
  have p: "poll_for_token (answer_with r1) c d i w =
             (Inr JNull, w\<lparr>sent := sent w @ [token_request c d]\<rparr>)"
          "poll_for_token (answer_with r2) c d i w =
             (Inr JNull, w\<lparr>sent := sent w @ [token_request c d]\<rparr>)" for c d i
    using assms by (simp_all add: poll_for_token_waiting answer_with_def)
  have a: "api_poll_token (answer_with r1) now session_id w =
           api_poll_token (answer_with r2) now session_id w"
    by (rule api_poll_token_cong) (simp add: p)
  have b: "api_poll_token (answer_with r1) now session_id w =
              (Jsonify (JObj [(''status'', JStr ''pending'')]) 200,
               w\<lparr>sent := sent w @ [token_request (client_id sd) (device_code sd)]\<rparr>)"
    if "load_sessions w session_id = Some sd" and "\<not> now > expires_at sd" for sd
    using that by (simp add: api_poll_token_def p)
  have c1: "cli_poll_for_token sleep cid dc ival (Inr r1 # rs) cw =
           (case sleep ival of
              Some e \<Rightarrow> (Raised e, cw\<lparr>cli_sent := cli_sent cw @ [token_request cid dc]\<rparr>)
            | None \<Rightarrow>
                cli_poll_for_token sleep cid dc ival rs
                  (cw\<lparr>cli_sent := cli_sent cw @ [token_request cid dc],
                      slept := slept cw @ [ival]\<rparr>))"
    using assms(1-3) by (intro cli_poll_for_token_waiting) auto
  have c2: "cli_poll_for_token sleep cid dc ival (Inr r2 # rs) cw =
           (case sleep ival of
              Some e \<Rightarrow> (Raised e, cw\<lparr>cli_sent := cli_sent cw @ [token_request cid dc]\<rparr>)
            | None \<Rightarrow>
                cli_poll_for_token sleep cid dc ival rs
                  (cw\<lparr>cli_sent := cli_sent cw @ [token_request cid dc],
                      slept := slept cw @ [ival]\<rparr>))"
    using assms(4-6) by (intro cli_poll_for_token_waiting) auto
  have c: "cli_poll_for_token sleep cid dc ival (Inr r1 # rs) cw =
           cli_poll_for_token sleep cid dc ival (Inr r2 # rs) cw"
    by (simp only: c1 c2)
  have d: "cli_poll_for_token sleep cid dc ival (Inr r1 # rs) cw =
              (Raised e, cw\<lparr>cli_sent := cli_sent cw @ [token_request cid dc]\<rparr>)"
    if "sleep ival = Some e" for e
    using that by (simp add: c1 del: cli_poll_for_token.simps)
  have e: "cli_poll_for_token sleep cid dc ival (map Inr ws @ Inr fin # rs) cw =
              (Returned j,
               cw\<lparr>cli_sent := cli_sent cw @ replicate (Suc (length ws)) (token_request cid dc),
                   slept := slept cw @ replicate (length ws) ival\<rparr>)"
    if ws: "set ws \<subseteq> {r1, r2}" and s: "sleep ival = None"
      and fin: "status_code fin = 200" "json_body fin = Some j" for ws fin j
  proof -
    have each: "status_code r = 400 \<and>
             (\<exists>kvs. json_body r = Some (JObj kvs) \<and>
                (map_of kvs ''error'' = Some (JStr ''authorization_pending'') \<or>
                 map_of kvs ''error'' = Some (JStr ''slow_down'')))" if "r \<in> set ws" for r
      using that ws assms by auto
    have "cli_poll_for_token sleep cid dc ival (map Inr ws @ Inr fin # rs) cw =
           cli_poll_for_token sleep cid dc ival (Inr fin # rs)
             (cw\<lparr>cli_sent := cli_sent cw @ replicate (length ws) (token_request cid dc),
                 slept := slept cw @ replicate (length ws) ival\<rparr>)"
      using each s by (rule cli_poll_for_token_waits)
    also have "\<dots> = (Returned j,
               cw\<lparr>cli_sent := cli_sent cw @ replicate (Suc (length ws)) (token_request cid dc),
                   slept := slept cw @ replicate (length ws) ival\<rparr>)"
      by (simp add: cli_poll_for_token_returns [OF fin] replicate_append_same
          del: cli_poll_for_token.simps)
    finally show ?thesis .
  qed
  from p a b c d e show ?thesis by blast
qed

theorem slow_down_same_as_pending_witness:
  "status_code slow_down_response = 400 \<and>
   json_body slow_down_response = Some (JObj [(''error'', JStr ''slow_down'')]) \<and>
   map_of [(''error'', JStr ''slow_down'')] ''error'' = Some (JStr ''slow_down'') \<and>
   status_code pending_response = 400 \<and>
   json_body pending_response = Some (JObj [(''error'', JStr ''authorization_pending'')]) \<and>
   map_of [(''error'', JStr ''authorization_pending'')] ''error'' =
     Some (JStr ''authorization_pending'') \<and>
   load_sessions sample_world ''S'' = Some sample_session \<and>
   \<not> 10 > expires_at sample_session \<and>
   api_poll_token (answer_with slow_down_response) 10 ''S'' sample_world =
     (Jsonify (JObj [(''status'', JStr ''pending'')]) 200,
      sample_world\<lparr>sent := [token_request (JStr ''abc'') (JStr ''d1'')]\<rparr>) \<and>
   api_poll_token (answer_with pending_response) 10 ''S'' sample_world =
     (Jsonify (JObj [(''status'', JStr ''pending'')]) 200,
      sample_world\<lparr>sent := [token_request (JStr ''abc'') (JStr ''d1'')]\<rparr>) \<and>
   set [slow_down_response, pending_response] \<subseteq> {slow_down_response, pending_response} \<and>
   sleep_returns (JNum 5) = None \<and>
   status_code token_response = 200 \<and>
   json_body token_response = Some (JObj [(''access_token'', JStr ''tok'')]) \<and>
   cli_poll_for_token sleep_returns (JStr ''abc'') (JStr ''d1'') (JNum 5)
       [Inr slow_down_response, Inr pending_response, Inr token_response]
       \<lparr>cli_sent = [], slept = []\<rparr> =
     (Returned (JObj [(''access_token'', JStr ''tok'')]),
      \<lparr>cli_sent = [token_request (JStr ''abc'') (JStr ''d1''),
                   token_request (JStr ''abc'') (JStr ''d1''),
                   token_request (JStr ''abc'') (JStr ''d1'')],
       slept = [JNum 5, JNum 5]\<rparr>)"
proof -
  have r1: "status_code slow_down_response = 400"
    "json_body slow_down_response = Some (JObj [(''error'', JStr ''slow_down'')])"
    "map_of [(''error'', JStr ''slow_down'')] ''error'' = Some (JStr ''slow_down'')"
    by (simp_all add: slow_down_response_def)
  have r2: "status_code pending_response = 400"
    "json_body pending_response = Some (JObj [(''error'', JStr ''authorization_pending'')])"
    "map_of [(''error'', JStr ''authorization_pending'')] ''error'' =
       Some (JStr ''authorization_pending'')"
    by (simp_all add: pending_response_def)
  have present: "load_sessions sample_world ''S'' = Some sample_session"
    "\<not> 10 > expires_at sample_session"
    by (simp_all add: load_sessions_def sample_world_def sample_session_def)
  have ws: "set [slow_down_response, pending_response] \<subseteq> {slow_down_response, pending_response}"
    by simp
  have s: "sleep_returns (JNum 5) = None"
    by (simp add: sleep_returns_def)
  have fin: "status_code token_response = 200"
    "json_body token_response = Some (JObj [(''access_token'', JStr ''tok'')])"
    by (simp_all add: token_response_def)
  note same = slow_down_same_as_pending [OF r1 r2, where cid = "JStr ''abc''"
      and dc = "JStr ''d1''" and ival = "JNum 5" and w = sample_world and now = 10
      and session_id = "''S''" and rs = "[]" and sleep = sleep_returns
      and cw = "\<lparr>cli_sent = [], slept = []\<rparr>"]
  from same present have a1: "api_poll_token (answer_with slow_down_response) 10 ''S'' sample_world =
     (Jsonify (JObj [(''status'', JStr ''pending'')]) 200,
      sample_world\<lparr>sent := sent sample_world @
        [token_request (client_id sample_session) (device_code sample_session)]\<rparr>)"
    by blast
  then have a: "api_poll_token (answer_with slow_down_response) 10 ''S'' sample_world =
     (Jsonify (JObj [(''status'', JStr ''pending'')]) 200,
      sample_world\<lparr>sent := [token_request (JStr ''abc'') (JStr ''d1'')]\<rparr>)"
    by (simp add: sample_world_def sample_session_def)
  from same have "api_poll_token (answer_with slow_down_response) 10 ''S'' sample_world =
     api_poll_token (answer_with pending_response) 10 ''S'' sample_world"
    by blast
  with a have b: "api_poll_token (answer_with pending_response) 10 ''S'' sample_world =
     (Jsonify (JObj [(''status'', JStr ''pending'')]) 200,
      sample_world\<lparr>sent := [token_request (JStr ''abc'') (JStr ''d1'')]\<rparr>)"
    by simp
  from same ws s fin have "cli_poll_for_token sleep_returns (JStr ''abc'') (JStr ''d1'') (JNum 5)
       (map Inr [slow_down_response, pending_response] @ Inr token_response # [])
       \<lparr>cli_sent = [], slept = []\<rparr> =
     (Returned (JObj [(''access_token'', JStr ''tok'')]),
      \<lparr>cli_sent = [], slept = []\<rparr>
       \<lparr>cli_sent := cli_sent \<lparr>cli_sent = [], slept = []\<rparr> @
          replicate (Suc (length [slow_down_response, pending_response]))
            (token_request (JStr ''abc'') (JStr ''d1'')),
        slept := slept \<lparr>cli_sent = [], slept = []\<rparr> @
          replicate (length [slow_down_response, pending_response]) (JNum 5)\<rparr>)"
    by blast
  then have c: "cli_poll_for_token sleep_returns (JStr ''abc'') (JStr ''d1'') (JNum 5)
       [Inr slow_down_response, Inr pending_response, Inr token_response]
       \<lparr>cli_sent = [], slept = []\<rparr> =
     (Returned (JObj [(''access_token'', JStr ''tok'')]),
      \<lparr>cli_sent = [token_request (JStr ''abc'') (JStr ''d1''),
                   token_request (JStr ''abc'') (JStr ''d1''),
                   token_request (JStr ''abc'') (JStr ''d1'')],
       slept = [JNum 5, JNum 5]\<rparr>)"
    by (simp add: numeral_2_eq_2 del: cli_poll_for_token.simps)
  from r1 r2 present a b ws s fin c show ?thesis by blast
qed

subsection \<open>Errors\<close>

text \<open>
  Claim C5. A poll of a session id that is not in the store answers 404
  "Invalid session ID"; nothing is posted to the provider and the session file is untouched.
\<close>

theorem api_poll_token_unknown_session:
  assumes "load_sessions w session_id = None"
  shows "api_poll_token P now session_id w =
           (Jsonify (JObj [(''error'', JStr ''Invalid session ID'')]) 404, w) \<and>
         sent (snd (api_poll_token P now session_id w)) = sent w \<and>
         session_file (snd (api_poll_token P now session_id w)) = session_file w"
  using assms by (simp add: api_poll_token_def)

theorem api_poll_token_unknown_session_witness:
  "load_sessions sample_world ''T'' = None \<and>
   api_poll_token unreachable 0 ''T'' sample_world =
     (Jsonify (JObj [(''error'', JStr ''Invalid session ID'')]) 404, sample_world) \<and>
   sent (snd (api_poll_token unreachable 0 ''T'' sample_world)) = []"
  using api_poll_token_unknown_session [of sample_world "''T''" unreachable 0]
  by (simp add: load_sessions_def sample_world_def)

text \<open>
  Claim C6, as the code has it. \<open>get_device_code\<close> relies on \<open>raise_for_status\<close>:
  once the provider has answered, it fails with an HTTPError holding the response exactly
  when the status is in 400..599. For every other status, the 2xx ones but also 1xx and 3xx,
  it returns \<open>resp.json()\<close>: the parsed payload when the body is a JSON document, the
  decoding error otherwise.
\<close>

theorem get_device_code_status:
  assumes "P (device_code_request cid scope) = Inr resp"
  shows "(fst (get_device_code P cid scope w) = Inl (HTTPError resp) \<longleftrightarrow>
            400 \<le> status_code resp \<and> status_code resp < 600) \<and>
         (\<not> (400 \<le> status_code resp \<and> status_code resp < 600) \<longrightarrow>
            fst (get_device_code P cid scope w) = resp_json resp) \<and>
         (200 \<le> status_code resp \<and> status_code resp < 300 \<and> json_body resp = Some j \<longrightarrow>
            fst (get_device_code P cid scope w) = Inr j)"
  using assms
  by (auto simp: get_device_code_def raise_for_status_def resp_json_def split: option.splits)

theorem get_device_code_status_witness:
  "answer_with pending_response (device_code_request (JStr ''abc'') (JStr DEFAULT_SCOPE)) =
     Inr pending_response \<and>
   fst (get_device_code (answer_with pending_response) (JStr ''abc'') (JStr DEFAULT_SCOPE)
          empty_world) = Inl (HTTPError pending_response) \<and>
   400 \<le> status_code pending_response \<and> status_code pending_response < 600 \<and>
   answer_with token_response (device_code_request (JStr ''abc'') (JStr DEFAULT_SCOPE)) =
     Inr token_response \<and>
   \<not> (400 \<le> status_code token_response \<and> status_code token_response < 600) \<and>
   200 \<le> status_code token_response \<and> status_code token_response < 300 \<and>
   json_body token_response = Some (JObj [(''access_token'', JStr ''tok'')]) \<and>
   fst (get_device_code (answer_with token_response) (JStr ''abc'') (JStr DEFAULT_SCOPE)
          empty_world) = Inr (JObj [(''access_token'', JStr ''tok'')])"
  using get_device_code_status [of "answer_with pending_response" "JStr ''abc''"
      "JStr DEFAULT_SCOPE" pending_response empty_world]
    get_device_code_status [of "answer_with token_response" "JStr ''abc''"
      "JStr DEFAULT_SCOPE" token_response empty_world "JObj [(''access_token'', JStr ''tok'')]"]
  by (simp add: answer_with_def pending_response_def token_response_def resp_json_def)

text \<open>
  Claim C6 as stated fails for a status that is neither 2xx nor an error status: on a 300
  answer with a JSON body, \<open>get_device_code\<close> does not fail and returns the parsed body.
\<close>

theorem get_device_code_non_2xx_counterexample:
  "answer_with multiple_choices_response (device_code_request (JStr ''abc'') (JStr DEFAULT_SCOPE)) =
     Inr multiple_choices_response \<and>
   status_code multiple_choices_response = 300 \<and>
   get_device_code (answer_with multiple_choices_response) (JStr ''abc'') (JStr DEFAULT_SCOPE)
       empty_world =
     (Inr (JObj [(''device_code'', JStr ''d1'')]),
      empty_world\<lparr>sent := [device_code_request (JStr ''abc'') (JStr DEFAULT_SCOPE)]\<rparr>)"
  by (simp add: get_device_code_def raise_for_status_def resp_json_def answer_with_def
      multiple_choices_response_def empty_world_def)

text \<open>
  Claim C9. For a stored session that is not expired, whenever the redemption attempt
  raises, the poll answers 500 with that exception's message and deletes the session. This
  covers in particular a transport failure of \<open>requests.post\<close> and a 400 response whose
  body is not a JSON document.
\<close>

theorem redemption_exception_is_terminal:
  assumes "load_sessions w session_id = Some sd"
    and "\<not> now > expires_at sd"
  shows "(\<forall>e w1. poll_for_token P (client_id sd) (device_code sd) (interval sd) w = (Inl e, w1) \<longrightarrow>
            api_poll_token P now session_id w =
              (JsonifyError e 500, save_sessions ((load_sessions w)(session_id := None)) w1) \<and>
            load_sessions (snd (api_poll_token P now session_id w)) session_id = None) \<and>
         (\<forall>e. P (token_request (client_id sd) (device_code sd)) = Inl e \<longrightarrow>
            fst (api_poll_token P now session_id w) = JsonifyError e 500 \<and>
            load_sessions (snd (api_poll_token P now session_id w)) session_id = None) \<and>
         (\<forall>resp. P (token_request (client_id sd) (device_code sd)) = Inr resp \<and>
            status_code resp = 400 \<and> json_body resp = None \<longrightarrow>
            fst (api_poll_token P now session_id w) = JsonifyError JSONDecodeError 500 \<and>
            load_sessions (snd (api_poll_token P now session_id w)) session_id = None)"
proof -
  have general: "api_poll_token P now session_id w =
              (JsonifyError e 500, save_sessions ((load_sessions w)(session_id := None)) w1) \<and>
            load_sessions (snd (api_poll_token P now session_id w)) session_id = None"
    if "poll_for_token P (client_id sd) (device_code sd) (interval sd) w = (Inl e, w1)" for e w1
    using assms that by (simp add: api_poll_token_def)
  have transport: "\<exists>w1. poll_for_token P (client_id sd) (device_code sd) (interval sd) w = (Inl e, w1)"
    if "P (token_request (client_id sd) (device_code sd)) = Inl e" for e
    using that by (simp add: poll_for_token_def)
  have garbled: "\<exists>w1. poll_for_token P (client_id sd) (device_code sd) (interval sd) w =
                   (Inl JSONDecodeError, w1)"
    if "P (token_request (client_id sd) (device_code sd)) = Inr resp"
      and "status_code resp = 400" and "json_body resp = None" for resp
    using that by (simp add: poll_for_token_def resp_json_def)
  show ?thesis
  proof (intro conjI allI impI)
    fix e assume "P (token_request (client_id sd) (device_code sd)) = Inl e"
    then obtain w1 where
      "poll_for_token P (client_id sd) (device_code sd) (interval sd) w = (Inl e, w1)"
      using transport by blast
    from general [OF this]
    show "fst (api_poll_token P now session_id w) = JsonifyError e 500"
      and "load_sessions (snd (api_poll_token P now session_id w)) session_id = None"
      by simp_all
  next
    fix resp assume "P (token_request (client_id sd) (device_code sd)) = Inr resp \<and>
            status_code resp = 400 \<and> json_body resp = None"
    then obtain w1 where
      "poll_for_token P (client_id sd) (device_code sd) (interval sd) w = (Inl JSONDecodeError, w1)"
      using garbled by blast
    from general [OF this]
    show "fst (api_poll_token P now session_id w) = JsonifyError JSONDecodeError 500"
      and "load_sessions (snd (api_poll_token P now session_id w)) session_id = None"
      by simp_all
  qed (use general in simp_all)
qed

theorem redemption_exception_is_terminal_witness:
  "load_sessions sample_world ''S'' = Some sample_session \<and>
   \<not> 10 > expires_at sample_session \<and>
   unreachable (token_request (client_id sample_session) (device_code sample_session)) =
     Inl (RequestException ''connection refused'') \<and>
   fst (api_poll_token unreachable 10 ''S'' sample_world) =
     JsonifyError (RequestException ''connection refused'') 500 \<and>
   load_sessions (snd (api_poll_token unreachable 10 ''S'' sample_world)) ''S'' = None \<and>
   answer_with garbled_response
       (token_request (client_id sample_session) (device_code sample_session)) =
     Inr garbled_response \<and>
   status_code garbled_response = 400 \<and> json_body garbled_response = None \<and>
   fst (api_poll_token (answer_with garbled_response) 10 ''S'' sample_world) =
     JsonifyError JSONDecodeError 500 \<and>
   load_sessions (snd (api_poll_token (answer_with garbled_response) 10 ''S'' sample_world)) ''S''
     = None"
proof -
  have present: "load_sessions sample_world ''S'' = Some sample_session"
    by (simp add: load_sessions_def sample_world_def)
  have fresh: "\<not> 10 > expires_at sample_session"
    by (simp add: sample_session_def)
  have down: "unreachable (token_request (client_id sample_session) (device_code sample_session)) =
     Inl (RequestException ''connection refused'')"
    by (simp add: unreachable_def)
  have bad: "answer_with garbled_response
       (token_request (client_id sample_session) (device_code sample_session)) =
     Inr garbled_response"
    "status_code garbled_response = 400" "json_body garbled_response = None"
    by (simp_all add: answer_with_def garbled_response_def)
  from redemption_exception_is_terminal [OF present fresh, of unreachable] down
  have t: "fst (api_poll_token unreachable 10 ''S'' sample_world) =
     JsonifyError (RequestException ''connection refused'') 500 \<and>
   load_sessions (snd (api_poll_token unreachable 10 ''S'' sample_world)) ''S'' = None"
    by blast
  from redemption_exception_is_terminal [OF present fresh, of "answer_with garbled_response"] bad
  have g: "fst (api_poll_token (answer_with garbled_response) 10 ''S'' sample_world) =
     JsonifyError JSONDecodeError 500 \<and>
   load_sessions (snd (api_poll_token (answer_with garbled_response) 10 ''S'' sample_world)) ''S''
     = None"
    by blast
  from present fresh down bad t g show ?thesis by blast
qed




subsection \<open>Requests at the same time\<close>

text \<open>
  Claim C8, as the code has it. The store is the whole session file, read at the start of a
  request and written back whole after the change, with no lock. For requests handled one at
  a time, a poll changes no key but its own, a start changes no key but the new one, and a
  poll of a key that is absent (for instance one deleted just before) answers 404 and leaves
  the store as it is. A poll is its load followed by the rest of the view; when the rest runs
  on a copy loaded earlier and ends with anything but "pending", the store becomes that
  copy without the polled key, whatever the file held in the meantime.
\<close>

theorem session_store_one_request_at_a_time:
  "(\<forall>k. k \<noteq> session_id \<longrightarrow>
      load_sessions (snd (api_poll_token P now session_id w)) k = load_sessions w k) \<and>
   (\<forall>k. k \<noteq> new_uuid \<longrightarrow>
      load_sessions (snd (api_device_code float_add P now new_uuid data w)) k =
        load_sessions w k) \<and>
   (load_sessions w session_id = None \<longrightarrow>
      api_poll_token P now session_id w =
        (Jsonify (JObj [(''error'', JStr ''Invalid session ID'')]) 404, w)) \<and>
   api_poll_token P now session_id w =
     api_poll_token_loaded P now session_id (load_sessions w) w \<and>
   (\<forall>stale sd. stale session_id = Some sd \<and>
      fst (api_poll_token_loaded P now session_id stale w) \<noteq>
        Jsonify (JObj [(''status'', JStr ''pending'')]) 200 \<longrightarrow>
      load_sessions (snd (api_poll_token_loaded P now session_id stale w)) =
        stale(session_id := None))"
proof (intro conjI allI impI)
  fix k assume "k \<noteq> session_id"
  then show "load_sessions (snd (api_poll_token P now session_id w)) k = load_sessions w k"
    by (simp add: api_poll_token_split api_poll_token_loaded_frame)
next
  fix k assume "k \<noteq> new_uuid"
  then show "load_sessions (snd (api_device_code float_add P now new_uuid data w)) k =
        load_sessions w k"
    by (rule api_device_code_frame)
next
  assume "load_sessions w session_id = None"
  then show "api_poll_token P now session_id w =
        (Jsonify (JObj [(''error'', JStr ''Invalid session ID'')]) 404, w)"
    by (simp add: api_poll_token_def)
next
  show "api_poll_token P now session_id w =
     api_poll_token_loaded P now session_id (load_sessions w) w"
    by (rule api_poll_token_split)
next
  fix stale sd
  assume "stale session_id = Some sd \<and>
      fst (api_poll_token_loaded P now session_id stale w) \<noteq>
        Jsonify (JObj [(''status'', JStr ''pending'')]) 200"
  then show "load_sessions (snd (api_poll_token_loaded P now session_id stale w)) =
        stale(session_id := None)"
    using api_poll_token_loaded_saved by blast
qed

theorem session_store_one_request_at_a_time_witness:
  "''T'' \<noteq> ''S'' \<and>
   load_sessions (snd (api_poll_token (answer_with token_response) 10 ''S'' two_sessions_world)) ''T''
     = Some sample_session \<and>
   load_sessions (snd (api_poll_token (answer_with token_response) 10 ''S'' two_sessions_world)) ''S''
     = None \<and>
   ''S'' \<noteq> ''U'' \<and>
   load_sessions (snd (api_device_code add_unrounded (answer_with device_code_response) 100 ''U''
       (JObj [(''client_id'', JStr ''abc'')]) two_sessions_world)) ''S'' = Some sample_session \<and>
   load_sessions (snd (api_device_code add_unrounded (answer_with device_code_response) 100 ''U''
       (JObj [(''client_id'', JStr ''abc'')]) two_sessions_world)) ''U'' =
     Some \<lparr>client_id = JStr ''abc'', device_code = JStr ''d2'', interval = JNum 5,
           expires_at = 1000\<rparr> \<and>
   load_sessions two_sessions_world ''X'' = None \<and>
   api_poll_token unreachable 10 ''X'' two_sessions_world =
     (Jsonify (JObj [(''error'', JStr ''Invalid session ID'')]) 404, two_sessions_world) \<and>
   load_sessions two_sessions_world ''T'' = Some sample_session \<and>
   fst (api_poll_token_loaded unreachable 901 ''T'' (load_sessions two_sessions_world) empty_world)
     \<noteq> Jsonify (JObj [(''status'', JStr ''pending'')]) 200 \<and>
   load_sessions (snd (api_poll_token_loaded unreachable 901 ''T''
       (load_sessions two_sessions_world) empty_world)) ''S'' = Some sample_session"
proof -
  have ne: "''T'' \<noteq> ''S''" "''S'' \<noteq> ''U''" by simp_all
  have two: "load_sessions two_sessions_world ''S'' = Some sample_session"
    "load_sessions two_sessions_world ''T'' = Some sample_session"
    "load_sessions two_sessions_world ''X'' = None"
    by (simp_all add: load_sessions_def two_sessions_world_def)
  note poll = session_store_one_request_at_a_time [where session_id = "''S''"
      and P = "answer_with token_response" and now = 10 and w = two_sessions_world]
  from poll ne two have a: "load_sessions (snd (api_poll_token (answer_with token_response) 10 ''S''
       two_sessions_world)) ''T'' = Some sample_session"
    by metis
  have a': "load_sessions (snd (api_poll_token (answer_with token_response) 10 ''S''
       two_sessions_world)) ''S'' = None"
    by (simp add: api_poll_token_def poll_for_token_def load_sessions_def save_sessions_def
        two_sessions_world_def sample_session_def answer_with_def token_response_def resp_json_def
        token_payload_def py_get_def)
  note create = session_store_one_request_at_a_time [where new_uuid = "''U''"
      and float_add = add_unrounded and P = "answer_with device_code_response" and now = 100
      and data = "JObj [(''client_id'', JStr ''abc'')]" and w = two_sessions_world]
  from create ne two have b: "load_sessions (snd (api_device_code add_unrounded
       (answer_with device_code_response) 100 ''U''
       (JObj [(''client_id'', JStr ''abc'')]) two_sessions_world)) ''S'' = Some sample_session"
    by metis
  have b': "load_sessions (snd (api_device_code add_unrounded (answer_with device_code_response)
       100 ''U'' (JObj [(''client_id'', JStr ''abc'')]) two_sessions_world)) ''U'' =
     Some \<lparr>client_id = JStr ''abc'', device_code = JStr ''d2'', interval = JNum 5,
           expires_at = 1000\<rparr>"
    by (simp add: api_device_code_def py_get_def get_device_code_def raise_for_status_def
        resp_json_def answer_with_def device_code_response_def new_session_def
        add_unrounded_def start_payload_def)
  note absent = session_store_one_request_at_a_time [where session_id = "''X''"
      and P = unreachable and now = 10 and w = two_sessions_world]
  from absent two have c: "api_poll_token unreachable 10 ''X'' two_sessions_world =
     (Jsonify (JObj [(''error'', JStr ''Invalid session ID'')]) 404, two_sessions_world)"
    by blast
  have d0: "fst (api_poll_token_loaded unreachable 901 ''T'' (load_sessions two_sessions_world)
       empty_world) \<noteq> Jsonify (JObj [(''status'', JStr ''pending'')]) 200"
    by (simp add: api_poll_token_loaded_def load_sessions_def two_sessions_world_def
        sample_session_def)
  note stale = session_store_one_request_at_a_time [where session_id = "''T''"
      and P = unreachable and now = 901 and w = empty_world]
  from stale two d0 have "load_sessions (snd (api_poll_token_loaded unreachable 901 ''T''
       (load_sessions two_sessions_world) empty_world)) =
     (load_sessions two_sessions_world)(''T'' := None)"
    by blast
  then have d: "load_sessions (snd (api_poll_token_loaded unreachable 901 ''T''
       (load_sessions two_sessions_world) empty_world)) ''S'' = Some sample_session"
    using two by simp
  from ne two a a' b b' c d0 d show ?thesis by blast
qed

text \<open>
  Claim C8 as stated fails for two requests on different keys that run at the same time:
  sessions S and T are stored and both expired; the polls of S and of T both load the file
  before either goes on. The poll of S deletes S, then the poll of T writes back its own copy
  without T, in which S is still present: the deleted session S is stored again. Handled in
  turn, the same two polls leave neither session.
\<close>

theorem concurrent_deletes_counterexample:
  "load_sessions two_sessions_world ''S'' = Some sample_session \<and>
   load_sessions two_sessions_world ''T'' = Some sample_session \<and>
   ''S'' \<noteq> ''T'' \<and>
   load_sessions (snd (api_poll_token_loaded unreachable 901 ''S''
       (load_sessions two_sessions_world) two_sessions_world)) ''S'' = None \<and>
   fst (polls_interleaved unreachable 901 ''S'' ''T'' two_sessions_world) =
     Jsonify (JObj [(''error'', JStr ''Session expired'')]) 408 \<and>
   fst (snd (polls_interleaved unreachable 901 ''S'' ''T'' two_sessions_world)) =
     Jsonify (JObj [(''error'', JStr ''Session expired'')]) 408 \<and>
   load_sessions (snd (snd (polls_interleaved unreachable 901 ''S'' ''T'' two_sessions_world))) ''S''
     = Some sample_session \<and>
   load_sessions (snd (snd (polls_interleaved unreachable 901 ''S'' ''T'' two_sessions_world))) ''T''
     = None \<and>
   load_sessions (snd (snd (polls_in_turn unreachable 901 ''S'' ''T'' two_sessions_world))) ''S''
     = None \<and>
   load_sessions (snd (snd (polls_in_turn unreachable 901 ''S'' ''T'' two_sessions_world))) ''T''
     = None"
  by (simp add: polls_interleaved_def polls_in_turn_def api_poll_token_loaded_def
      api_poll_token_def load_sessions_def save_sessions_def two_sessions_world_def
      sample_session_def)

end
